theory Spec2Isabelle
  imports Main
begin

section \<open>The transaction dialog with a signing timeout\<close>

text \<open>
  A shallow embedding of \<^verbatim>\<open>electrum/gui/qt/transaction_dialog_timeout.py\<close>: the
  dialog class \<^verbatim>\<open>TxDialogTimeout\<close>, the module function
  \<^verbatim>\<open>show_transaction_timeout\<close> and the module-level list \<^verbatim>\<open>dialogs\<close>.
  Widget layout and text formatting are left out; every attribute that the countdown, the
  lock handling and the button gating read or write is a field of the records below.
\<close>

subsection \<open>Objects and the object store\<close>

type_synonym addr = nat

text \<open>
  The class \<^verbatim>\<open>Transaction\<close> is imported from \<^verbatim>\<open>electrum_exos.transaction\<close>.
  The dialog observes three things of a transaction: whether \<^verbatim>\<open>deserialize()\<close>
  returns or raises, what \<^verbatim>\<open>is_complete()\<close> answers, and its content as a whole
  (the text shown, exported and handed to the wallet).
\<close>

record transaction =
  payload :: string
  deserializable :: bool
  is_complete :: bool

datatype error = SerializationError | TransportError

text \<open>The test \<^verbatim>\<open>type(self.wallet) == Multisig_Wallet\<close> is an exact comparison of
  classes: every other class, a subclass included, is \<open>Other_Wallet\<close>.\<close>

datatype wallet_kind = Multisig_Wallet | Other_Wallet

record lock_record =
  timestamp :: int

text \<open>The calls the dialog makes on the cosigner-pool server, in the order made:
  \<^verbatim>\<open>server.lock\<close> (read), \<^verbatim>\<open>server.get_current_time()\<close>,
  \<^verbatim>\<open>del server.lock\<close> and \<^verbatim>\<open>server.delete(wallet_hash)\<close>.\<close>

datatype coord_call = Lock_read | Get_current_time | Lock_del | Delete string

text \<open>
  Python objects are shared by reference, so transactions and signature sets live in a
  store indexed by address. \<open>next_addr\<close> is the first address not yet in use. The same
  record carries the module-level list \<open>dialogs\<close> (the identities of the live dialogs),
  the state of the cosigner-pool server, and the critical messages shown to the user.
\<close>

record world =
  txs :: "addr \<Rightarrow> transaction"
  sigs :: "addr \<Rightarrow> string list"
  next_addr :: addr
  dialogs :: "addr list"
  locks :: "string \<Rightarrow> lock_record option"
  wallet_hash :: string
  current_time :: int
  calls :: "coord_call list"
  criticals :: "error list"

text \<open>What the main window and the wallet answer when \<^verbatim>\<open>update\<close> asks:
  \<^verbatim>\<open>wallet.can_sign(tx)\<close>, \<^verbatim>\<open>bool(main_window.tx_external_keypairs)\<close> and
  \<^verbatim>\<open>wallet.get_tx_info(tx).can_broadcast\<close>.\<close>

record env =
  wallet_can_sign :: "transaction \<Rightarrow> bool"
  tx_external_keypairs :: bool
  tx_can_broadcast :: "transaction \<Rightarrow> bool"

text \<open>The attributes of one \<^verbatim>\<open>TxDialogTimeout\<close> object. \<open>sid\<close> is the identity
  of the dialog object; \<open>tx\<close> and \<open>signed\<close> are references into the store.
  \<open>timed_out\<close> is only ever assigned \<^verbatim>\<open>True\<close>; \<open>False\<close> stands for the attribute
  not being set. \<open>timer_active\<close> says that \<^verbatim>\<open>my_qtimer\<close> has been started, and
  \<open>visible\<close> is what \<^verbatim>\<open>isVisible()\<close> answers.\<close>

record session =
  sid :: addr
  tx :: addr
  signed :: addr
  wallet :: wallet_kind
  prompt_if_unsaved :: bool
  saved :: bool
  desc :: "string option"
  time_left_int :: int
  timer_active :: bool
  timed_out :: bool
  visible :: bool
  sign_button_enabled :: bool
  broadcast_button_enabled :: bool
  save_button_enabled :: bool
  time_out_label :: "(int \<times> int) option"

definition DURATION_INT :: int where
  "DURATION_INT = 60 * 10"

subsection \<open>The cosigner-pool server\<close>

text \<open>
  Modelled from the spec: the module \<^verbatim>\<open>electrum_exos.plugins.cosigner_pool.server\<close>
  is imported by the dialog and is not part of this file. Following the LockCoordinator
  interface of the specification, the server is a store of at most one lock record per
  wallet hash: reading \<^verbatim>\<open>server.lock\<close> is \<^verbatim>\<open>getLock(walletHash)\<close> for the
  server's own wallet hash, and both \<^verbatim>\<open>del server.lock\<close> and
  \<^verbatim>\<open>server.delete(wallet_hash)\<close> are \<^verbatim>\<open>deleteLock(walletHash)\<close>; deleting an
  absent record is a no-op. Each call is appended to \<open>calls\<close>.
\<close>

definition server_lock :: "world \<Rightarrow> lock_record option \<times> world" where
  "server_lock w = (locks w (wallet_hash w), w\<lparr>calls := calls w @ [Lock_read]\<rparr>)"

definition server_get_current_time :: "world \<Rightarrow> int \<times> world" where
  "server_get_current_time w = (current_time w, w\<lparr>calls := calls w @ [Get_current_time]\<rparr>)"

definition server_del_lock :: "world \<Rightarrow> world" where
  "server_del_lock w =
     w\<lparr>locks := (locks w)(wallet_hash w := None), calls := calls w @ [Lock_del]\<rparr>"

definition server_delete :: "string \<Rightarrow> world \<Rightarrow> world" where
  "server_delete h w = w\<lparr>locks := (locks w)(h := None), calls := calls w @ [Delete h]\<rparr>"

text \<open>The calls that release a lock.\<close>

fun is_release :: "coord_call \<Rightarrow> bool" where
  "is_release Lock_del = True"
| "is_release (Delete h) = True"
| "is_release Lock_read = False"
| "is_release Get_current_time = False"

subsection \<open>Allocation and \<^verbatim>\<open>copy.deepcopy\<close>\<close>

definition alloc :: "world \<Rightarrow> addr \<times> world" where
  "alloc w = (next_addr w, w\<lparr>next_addr := Suc (next_addr w)\<rparr>)"

definition deepcopy_tx :: "addr \<Rightarrow> world \<Rightarrow> addr \<times> world" where
  "deepcopy_tx a w =
     (next_addr w, w\<lparr>txs := (txs w)(next_addr w := txs w a), next_addr := Suc (next_addr w)\<rparr>)"

definition deepcopy_signed :: "addr \<Rightarrow> world \<Rightarrow> addr \<times> world" where
  "deepcopy_signed a w =
     (next_addr w, w\<lparr>sigs := (sigs w)(next_addr w := sigs w a), next_addr := Suc (next_addr w)\<rparr>)"

subsection \<open>The methods of the dialog\<close>

text \<open>Line 173: \<^verbatim>\<open>int((DURATION_INT - (int(server.get_current_time()) - int(expire))))\<close>,
  with the duration as a parameter.\<close>

definition computeRemaining :: "int \<Rightarrow> int \<Rightarrow> int \<Rightarrow> int" where
  "computeRemaining now lockTimestamp configuredDuration =
     configuredDuration - (now - lockTimestamp)"

text \<open>Lines 276-277 of \<^verbatim>\<open>update\<close>.\<close>

definition can_sign :: "env \<Rightarrow> transaction \<Rightarrow> bool" where
  "can_sign e t = (\<not> is_complete t \<and> (wallet_can_sign e t \<or> tx_external_keypairs e))"

text \<open>\<^verbatim>\<open>update\<close>: the two action buttons and the countdown label are recomputed;
  \<^verbatim>\<open>divmod\<close> by 60 rounds towards minus infinity, as \<open>div\<close> and \<open>mod\<close> do.\<close>

definition update :: "env \<Rightarrow> session \<Rightarrow> world \<Rightarrow> session" where
  "update e s w =
     s\<lparr>broadcast_button_enabled := tx_can_broadcast e (txs w (tx s)),
       sign_button_enabled := can_sign e (txs w (tx s)),
       time_out_label := Some (time_left_int s div 60, time_left_int s mod 60)\<rparr>"

definition timer_start :: "env \<Rightarrow> session \<Rightarrow> world \<Rightarrow> session" where
  "timer_start e s w = update e (s\<lparr>timer_active := True\<rparr>) w"

definition release_lock :: "session \<Rightarrow> world \<Rightarrow> world" where
  "release_lock s w = (if wallet s = Multisig_Wallet then server_del_lock w else w)"

text \<open>\<^verbatim>\<open>closeEvent\<close>: \<^verbatim>\<open>dialogs.remove(self)\<close> raises \<^verbatim>\<open>ValueError\<close> when the
  dialog is not in the list; the handler swallows it, and \<^verbatim>\<open>release_lock\<close> is then
  not reached.\<close>

definition closeEvent :: "session \<Rightarrow> world \<Rightarrow> world" where
  "closeEvent s w =
     (if sid s \<in> set (dialogs w)
      then release_lock s (w\<lparr>dialogs := remove1 (sid s) (dialogs w)\<rparr>)
      else w)"

text \<open>\<^verbatim>\<open>QDialog.close\<close> delivers the close event, which the handler accepts, and the
  dialog is hidden. \<^verbatim>\<open>reject\<close> is the same call.\<close>

definition close :: "session \<Rightarrow> world \<Rightarrow> session \<times> world" where
  "close s w = (s\<lparr>visible := False\<rparr>, closeEvent s w)"

definition timer_timeout :: "env \<Rightarrow> session \<Rightarrow> world \<Rightarrow> session \<times> world" where
  "timer_timeout e s w =
     (let s1 = s\<lparr>time_left_int := time_left_int s - 1\<rparr>
      in if time_left_int s1 = 0 \<and> visible s1
         then (let (s2, w2) = close (s1\<lparr>timed_out := True\<rparr>) w in (update e s2 w2, w2))
         else (update e s1 w, w))"

text \<open>\<^verbatim>\<open>do_broadcast\<close>: the argument \<open>ok\<close> says whether
  \<^verbatim>\<open>main_window.broadcast_transaction\<close> returns or raises. The \<^verbatim>\<open>finally\<close> block
  runs in both cases; the two statements after it only when nothing was raised.\<close>

definition do_broadcast ::
  "env \<Rightarrow> bool \<Rightarrow> session \<Rightarrow> world \<Rightarrow> error option \<times> session \<times> world" where
  "do_broadcast e ok s w =
     (let w1 = (if wallet s = Multisig_Wallet then server_delete (wallet_hash w) w else w)
      in if ok then (None, update e (s\<lparr>saved := True\<rparr>) w1, w1)
         else (Some TransportError, s, w1))"

text \<open>\<^verbatim>\<open>sign\<close> disables the button and hands the transaction to
  \<^verbatim>\<open>main_window.sign_tx\<close>, which signs the dialog's own transaction object in place
  (\<open>wallet_signs\<close>) and then calls \<^verbatim>\<open>sign_done\<close>.\<close>

definition sign :: "session \<Rightarrow> session" where
  "sign s = s\<lparr>sign_button_enabled := False\<rparr>"

definition wallet_signs :: "transaction \<Rightarrow> session \<Rightarrow> world \<Rightarrow> world" where
  "wallet_signs t s w = w\<lparr>txs := (txs w)(tx s := t)\<rparr>"

definition sign_done :: "env \<Rightarrow> bool \<Rightarrow> session \<Rightarrow> world \<Rightarrow> session" where
  "sign_done e success s w =
     update e
       (if is_complete (txs w (tx s))
        then s\<lparr>prompt_if_unsaved := True, saved := False, save_button_enabled := True\<rparr>
        else s) w"

text \<open>\<^verbatim>\<open>save\<close> and \<^verbatim>\<open>export\<close>: the argument is what
  \<^verbatim>\<open>save_transaction_into_wallet\<close> answers, respectively whether a file name was
  chosen.\<close>

definition save :: "bool \<Rightarrow> session \<Rightarrow> session" where
  "save stored s = (if stored then s\<lparr>save_button_enabled := False, saved := True\<rparr> else s)"

definition export :: "bool \<Rightarrow> session \<Rightarrow> session" where
  "export chosen s = (if chosen then s\<lparr>saved := True\<rparr> else s)"

text \<open>\<^verbatim>\<open>if expire:\<close> holds for a lock that is present and whose timestamp is not 0.\<close>

definition expire_of :: "lock_record option \<Rightarrow> int option" where
  "expire_of lock = (case lock of None \<Rightarrow> None | Some l \<Rightarrow> Some (timestamp l))"

fun truthy :: "int option \<Rightarrow> bool" where
  "truthy None = False"
| "truthy (Some n) = (n \<noteq> 0)"

text \<open>\<^verbatim>\<open>__init__\<close>. The dialog object is created, both arguments are deep-copied,
  and the copy is deserialized: whatever that raises is re-raised as
  \<^verbatim>\<open>SerializationError\<close>, and the world is then as it was (the copies are
  unreachable). Otherwise the attributes are set, the lock is read, and the countdown is
  seeded and started when the lock has a timestamp.\<close>

definition TxDialogTimeout_init ::
  "env \<Rightarrow> addr \<Rightarrow> addr \<Rightarrow> wallet_kind \<Rightarrow> string option \<Rightarrow> bool \<Rightarrow> world
     \<Rightarrow> error + session \<times> world" where
  "TxDialogTimeout_init e tx0 signed0 wal desc0 prompt w =
     (let (d, wa) = alloc w;
          (t, wb) = deepcopy_tx tx0 wa;
          (g, wc) = deepcopy_signed signed0 wb
      in if \<not> deserializable (txs wc t) then Inl SerializationError
         else
           (let s0 = \<lparr>sid = d, tx = t, signed = g, wallet = wal,
                      prompt_if_unsaved = prompt, saved = False, desc = desc0,
                      time_left_int = DURATION_INT, timer_active = False,
                      timed_out = False, visible = False,
                      sign_button_enabled = True, broadcast_button_enabled = True,
                      save_button_enabled = is_complete (txs wc t),
                      time_out_label = None\<rparr>;
                (lock, wd) = server_lock wc;
                expire = expire_of lock
            in if truthy expire
               then (let (now, we) = server_get_current_time wd;
                         s1 = s0\<lparr>time_left_int :=
                                   computeRemaining now (the expire) DURATION_INT\<rparr>;
                         s2 = timer_start e s1 we
                     in Inr (update e s2 we, we))
               else Inr (update e s0 wd, wd)))"

text \<open>\<^verbatim>\<open>show_transaction_timeout\<close>: a \<^verbatim>\<open>SerializationError\<close> is reported with
  \<^verbatim>\<open>show_critical\<close> and nothing is returned; any other exception propagates; otherwise
  the dialog is appended to \<open>dialogs\<close>, shown and returned.\<close>

definition show_transaction_timeout ::
  "env \<Rightarrow> addr \<Rightarrow> addr \<Rightarrow> wallet_kind \<Rightarrow> string option \<Rightarrow> bool \<Rightarrow> world
     \<Rightarrow> error + session option \<times> world" where
  "show_transaction_timeout e tx0 signed0 wal desc0 prompt w =
     (case TxDialogTimeout_init e tx0 signed0 wal desc0 prompt w of
        Inl SerializationError \<Rightarrow> Inr (None, w\<lparr>criticals := criticals w @ [SerializationError]\<rparr>)
      | Inl err \<Rightarrow> Inl err
      | Inr (d, w') \<Rightarrow>
          Inr (Some (d\<lparr>visible := True\<rparr>), w'\<lparr>dialogs := dialogs w' @ [sid d]\<rparr>))"

subsection \<open>Events and runs\<close>

text \<open>What can happen to an open dialog: a timer tick, a close request, the buttons, the
  wallet signing the dialog's transaction and reporting back, and \<open>Mutate\<close> and
  \<open>Mutate_signed\<close>, a write by the rest of the program to a transaction object,
  respectively to a signature set, in the store.\<close>

datatype event =
    Tick
  | Close
  | Sign
  | Wallet_signs transaction
  | Sign_done bool
  | Broadcast bool
  | Save bool
  | Export bool
  | Mutate addr transaction
  | Mutate_signed addr "string list"

fun step :: "env \<Rightarrow> event \<Rightarrow> session \<times> world \<Rightarrow> session \<times> world" where
  "step e Tick (s, w) = (if timer_active s then timer_timeout e s w else (s, w))"
| "step e Close (s, w) = close s w"
| "step e Sign (s, w) = (sign s, w)"
| "step e (Wallet_signs t) (s, w) = (s, wallet_signs t s w)"
| "step e (Sign_done b) (s, w) = (sign_done e b s w, w)"
| "step e (Broadcast ok) (s, w) = snd (do_broadcast e ok s w)"
| "step e (Save b) (s, w) = (save b s, w)"
| "step e (Export b) (s, w) = (export b s, w)"
| "step e (Mutate a t) (s, w) = (s, w\<lparr>txs := (txs w)(a := t)\<rparr>)"
| "step e (Mutate_signed a v) (s, w) = (s, w\<lparr>sigs := (sigs w)(a := v)\<rparr>)"

fun run :: "env \<Rightarrow> event list \<Rightarrow> session \<times> world \<Rightarrow> session \<times> world" where
  "run e [] c = c"
| "run e (ev # evs) c = run e evs (step e ev c)"

subsection \<open>Example values\<close>

text \<open>Concrete transactions, answers of the wallet and worlds, used to run the
  definitions: a world with two allocated objects (a transaction at address 0 and a
  signature set at address 1), no live dialog, and a lock for the wallet when a timestamp
  is given.\<close>

definition tx_unsigned :: transaction where
  "tx_unsigned = \<lparr>payload = ''unsigned'', deserializable = True, is_complete = False\<rparr>"

definition tx_signed :: transaction where
  "tx_signed = \<lparr>payload = ''signed'', deserializable = True, is_complete = True\<rparr>"

definition tx_malformed :: transaction where
  "tx_malformed = \<lparr>payload = ''garbage'', deserializable = False, is_complete = False\<rparr>"

definition demo_env :: env where
  "demo_env = \<lparr>wallet_can_sign = (\<lambda>t. True), tx_external_keypairs = False,
                tx_can_broadcast = is_complete\<rparr>"

definition demo_world :: "transaction \<Rightarrow> int option \<Rightarrow> int \<Rightarrow> world" where
  "demo_world t lk now =
     \<lparr>txs = (\<lambda>a. t), sigs = (\<lambda>a. []), next_addr = 2, dialogs = [],
      locks = (\<lambda>h. None)(''wallet'' := map_option (\<lambda>n. \<lparr>timestamp = n\<rparr>) lk),
      wallet_hash = ''wallet'', current_time = now, calls = [], criticals = []\<rparr>"

text \<open>The dialog and the world after \<open>show_transaction_timeout\<close> on such a world.\<close>

definition demo_open :: "wallet_kind \<Rightarrow> transaction \<Rightarrow> int option \<Rightarrow> int \<Rightarrow> session \<times> world" where
  "demo_open k t lk now =
     (let r = projr (show_transaction_timeout demo_env 0 1 k None False (demo_world t lk now))
      in (the (fst r), snd r))"

text \<open>Two worlds that differ at most in the transaction stored at \<open>a\<close> and in the
  signature set stored at \<open>g\<close>.\<close>

definition same_but :: "addr \<Rightarrow> addr \<Rightarrow> world \<Rightarrow> world \<Rightarrow> bool" where
  "same_but a g w1 w2 =
     ((\<forall>b. b \<noteq> a \<longrightarrow> txs w1 b = txs w2 b) \<and>
      (\<forall>b. b \<noteq> g \<longrightarrow> sigs w1 b = sigs w2 b) \<and>
      next_addr w1 = next_addr w2 \<and> dialogs w1 = dialogs w2 \<and> locks w1 = locks w2 \<and>
      wallet_hash w1 = wallet_hash w2 \<and> current_time w1 = current_time w2 \<and>
      calls w1 = calls w2 \<and> criticals w1 = criticals w2)"

fun is_mutate :: "event \<Rightarrow> bool" where
  "is_mutate (Mutate a t) = True"
| "is_mutate (Mutate_signed a v) = True"
| "is_mutate ev = False"

text \<open>A run with the writes from outside left out.\<close>

fun without_mutations :: "event list \<Rightarrow> event list" where
  "without_mutations [] = []"
| "without_mutations (ev # evs) =
     (if is_mutate ev then without_mutations evs else ev # without_mutations evs)"

text \<open>The writes from outside in a run go to the transaction at \<open>a\<close> and to the
  signature set at \<open>g\<close> only.\<close>

fun mutates_only :: "addr \<Rightarrow> addr \<Rightarrow> event list \<Rightarrow> bool" where
  "mutates_only a g [] = True"
| "mutates_only a g (Mutate b t # evs) = (b = a \<and> mutates_only a g evs)"
| "mutates_only a g (Mutate_signed b v # evs) = (b = g \<and> mutates_only a g evs)"
| "mutates_only a g (ev # evs) = mutates_only a g evs"

section \<open>Properties\<close>

subsection \<open>Unfolding and construction\<close>

lemmas init_defs = TxDialogTimeout_init_def alloc_def deepcopy_tx_def deepcopy_signed_def
  server_lock_def server_get_current_time_def expire_of_def timer_start_def update_def Let_def

lemmas demo_defs = demo_open_def demo_world_def demo_env_def tx_unsigned_def tx_signed_def
  tx_malformed_def show_transaction_timeout_def DURATION_INT_def computeRemaining_def

lemmas op_defs = timer_timeout_def close_def closeEvent_def release_lock_def
  server_del_lock_def server_delete_def do_broadcast_def sign_def sign_done_def
  wallet_signs_def save_def export_def can_sign_def

lemma init_malformed:
  "\<not> deserializable (txs w a) \<Longrightarrow> TxDialogTimeout_init e a g k d p w = Inl SerializationError"
  by (simp add: init_defs)

lemma init_Inl:
  "TxDialogTimeout_init e a g k d p w = Inl err \<Longrightarrow>
     err = SerializationError \<and> \<not> deserializable (txs w a)"
  by (simp add: init_defs split: if_splits)

lemma init_seeded:
  assumes "deserializable (txs w a)" and "locks w (wallet_hash w) = Some l"
    and "timestamp l \<noteq> 0"
  shows "\<exists>s w'. TxDialogTimeout_init e a g k d p w = Inr (s, w') \<and>
           time_left_int s = computeRemaining (current_time w) (timestamp l) DURATION_INT \<and>
           timer_active s \<and> \<not> timed_out s \<and> \<not> visible s \<and> wallet s = k \<and>
           calls w' = calls w @ [Lock_read, Get_current_time] \<and>
           locks w' = locks w \<and> dialogs w' = dialogs w"
  using assms by (simp add: init_defs)

lemma init_unseeded:
  assumes "deserializable (txs w a)"
    and "locks w (wallet_hash w) = None \<or> locks w (wallet_hash w) = Some \<lparr>timestamp = 0\<rparr>"
  shows "\<exists>s w'. TxDialogTimeout_init e a g k d p w = Inr (s, w') \<and>
           time_left_int s = DURATION_INT \<and> \<not> timer_active s \<and> \<not> timed_out s \<and>
           \<not> visible s \<and> wallet s = k \<and>
           calls w' = calls w @ [Lock_read] \<and> locks w' = locks w \<and> dialogs w' = dialogs w"
  using assms by (auto simp add: init_defs)

lemma init_Inr_fields:
  assumes "TxDialogTimeout_init e a g k d p w = Inr (s, w')"
  shows "sid s = next_addr w" and "tx s = Suc (next_addr w)"
    and "signed s = Suc (Suc (next_addr w))" and "wallet s = k"
    and "txs w' (tx s) = txs w a" and "sigs w' (signed s) = sigs w g"
    and "\<And>b. b \<noteq> tx s \<Longrightarrow> txs w' b = txs w b"
    and "locks w' = locks w" and "dialogs w' = dialogs w"
    and "next_addr w' = next_addr w + 3" and "\<not> timed_out s" and "\<not> visible s"
  using assms by (auto simp add: init_defs split: if_splits)

subsection \<open>The countdown seed\<close>

text \<open>
  C1, as the code has it. The countdown is seeded with the configured duration minus the
  time elapsed since the lock's timestamp, \<open>D - (N - T)\<close>, whatever the elapsed time is:
  the value is not clamped, so it is negative when more than \<open>D\<close> has elapsed. The
  constructor stores exactly this value, for the duration \<open>DURATION_INT\<close>, when it finds
  a lock whose timestamp is not 0.
\<close>

theorem computeRemaining_unclamped:
  assumes "deserializable (txs w a)" and "locks w (wallet_hash w) = Some l"
    and "timestamp l \<noteq> 0"
  shows "computeRemaining N T D = D - (N - T) \<and>
         (N - T \<le> D \<longrightarrow> 0 \<le> computeRemaining N T D) \<and>
         (D < N - T \<longrightarrow> computeRemaining N T D < 0) \<and>
         (\<exists>s w'. TxDialogTimeout_init e a g k d p w = Inr (s, w') \<and>
            time_left_int s = computeRemaining (current_time w) (timestamp l) DURATION_INT)"
proof -
  have "computeRemaining N T D = D - (N - T)"
    by (simp add: computeRemaining_def)
  moreover from init_seeded [OF assms, of e g k d p]
  have "\<exists>s w'. TxDialogTimeout_init e a g k d p w = Inr (s, w') \<and>
          time_left_int s = computeRemaining (current_time w) (timestamp l) DURATION_INT"
    by blast
  ultimately show ?thesis by simp
qed

theorem computeRemaining_unclamped_witness:
  "computeRemaining 150 100 600 = 550 \<and> computeRemaining 1000 100 600 = - 300 \<and>
   (\<exists>s w'. TxDialogTimeout_init demo_env 0 1 Multisig_Wallet None False
              (demo_world tx_unsigned (Some 100) 150) = Inr (s, w') \<and>
            time_left_int s = 550)"
proof -
  have h: "deserializable (txs (demo_world tx_unsigned (Some 100) 150) 0)"
    "locks (demo_world tx_unsigned (Some 100) 150)
       (wallet_hash (demo_world tx_unsigned (Some 100) 150)) = Some \<lparr>timestamp = 100\<rparr>"
    "timestamp \<lparr>timestamp = 100\<rparr> \<noteq> 0"
    by (simp_all add: demo_world_def tx_unsigned_def)
  from computeRemaining_unclamped [OF h, of 1000 100 600 demo_env 1 Multisig_Wallet None False]
    computeRemaining_unclamped [OF h, of 150 100 600 demo_env 1 Multisig_Wallet None False]
  show ?thesis
    by (simp add: demo_world_def DURATION_INT_def computeRemaining_def)
qed

theorem computeRemaining_clamp_counterexample:
  "(600::int) < 1000 - 100 \<and> computeRemaining 1000 100 600 \<noteq> 0 \<and>
   computeRemaining 1000 100 600 < 0 \<and>
   time_left_int (fst (demo_open Multisig_Wallet tx_unsigned (Some 100) 1000)) = - 300"
  by (simp add: demo_defs init_defs)

subsection \<open>Broadcast\<close>

text \<open>
  C2. A broadcast attempt on a dialog of a multisig wallet deletes the lock record of the
  wallet's hash, whether \<open>broadcast_transaction\<close> returns (\<open>ok\<close>) or raises: the
  deletion sits in the \<open>finally\<close> block. In both cases the only call made on the server
  is \<open>server.delete(wallet_hash)\<close>; a failure is handed on to the caller as the error.
\<close>

theorem do_broadcast_releases_lock:
  assumes "wallet s = Multisig_Wallet"
  shows "locks (snd (snd (do_broadcast e ok s w))) (wallet_hash w) = None \<and>
         calls (snd (snd (do_broadcast e ok s w))) = calls w @ [Delete (wallet_hash w)] \<and>
         fst (do_broadcast e ok s w) = (if ok then None else Some TransportError)"
  using assms by (simp add: do_broadcast_def server_delete_def Let_def)

theorem do_broadcast_releases_lock_witness:
  "locks (snd (demo_open Multisig_Wallet tx_signed (Some 900) 1000)) ''wallet''
     = Some \<lparr>timestamp = 900\<rparr> \<and>
   locks (snd (snd (do_broadcast demo_env True
       (fst (demo_open Multisig_Wallet tx_signed (Some 900) 1000))
       (snd (demo_open Multisig_Wallet tx_signed (Some 900) 1000))))) ''wallet'' = None \<and>
   locks (snd (snd (do_broadcast demo_env False
       (fst (demo_open Multisig_Wallet tx_signed (Some 900) 1000))
       (snd (demo_open Multisig_Wallet tx_signed (Some 900) 1000))))) ''wallet'' = None \<and>
   fst (do_broadcast demo_env False
       (fst (demo_open Multisig_Wallet tx_signed (Some 900) 1000))
       (snd (demo_open Multisig_Wallet tx_signed (Some 900) 1000))) = Some TransportError"
proof -
  have m: "wallet (fst (demo_open Multisig_Wallet tx_signed (Some 900) 1000)) = Multisig_Wallet"
    by (simp add: demo_defs init_defs)
  have h: "wallet_hash (snd (demo_open Multisig_Wallet tx_signed (Some 900) 1000)) = ''wallet''"
    by (simp add: demo_defs init_defs)
  have l: "locks (snd (demo_open Multisig_Wallet tx_signed (Some 900) 1000)) ''wallet''
             = Some \<lparr>timestamp = 900\<rparr>"
    by (simp add: demo_defs init_defs)
  from do_broadcast_releases_lock [OF m, of demo_env True
         "snd (demo_open Multisig_Wallet tx_signed (Some 900) 1000)"]
       do_broadcast_releases_lock [OF m, of demo_env False
         "snd (demo_open Multisig_Wallet tx_signed (Some 900) 1000)"]
  show ?thesis by (simp add: h l)
qed

subsection \<open>A transaction that does not deserialize\<close>

text \<open>
  C6. When the transaction handed to the constructor does not deserialize, the
  constructor raises \<open>SerializationError\<close> and returns no dialog.
  \<open>show_transaction_timeout\<close> then reports that error with \<open>show_critical\<close> and returns
  nothing: the list of live dialogs is as before, no call has been made on the server,
  and the lock records are untouched.
\<close>

theorem malformed_transaction_creates_no_session:
  assumes "\<not> deserializable (txs w a)"
  shows "TxDialogTimeout_init e a g k d p w = Inl SerializationError \<and>
         show_transaction_timeout e a g k d p w
           = Inr (None, w\<lparr>criticals := criticals w @ [SerializationError]\<rparr>) \<and>
         dialogs (snd (projr (show_transaction_timeout e a g k d p w))) = dialogs w \<and>
         calls (snd (projr (show_transaction_timeout e a g k d p w))) = calls w \<and>
         locks (snd (projr (show_transaction_timeout e a g k d p w))) = locks w"
  using init_malformed [OF assms, of e g k d p]
  by (simp add: show_transaction_timeout_def)

theorem malformed_transaction_creates_no_session_witness:
  "\<not> deserializable (txs (demo_world tx_malformed (Some 900) 1000) 0) \<and>
   TxDialogTimeout_init demo_env 0 1 Multisig_Wallet None False
     (demo_world tx_malformed (Some 900) 1000) = Inl SerializationError \<and>
   fst (projr (show_transaction_timeout demo_env 0 1 Multisig_Wallet None False
     (demo_world tx_malformed (Some 900) 1000))) = None \<and>
   dialogs (snd (projr (show_transaction_timeout demo_env 0 1 Multisig_Wallet None False
     (demo_world tx_malformed (Some 900) 1000)))) = [] \<and>
   calls (snd (projr (show_transaction_timeout demo_env 0 1 Multisig_Wallet None False
     (demo_world tx_malformed (Some 900) 1000)))) = [] \<and>
   criticals (snd (projr (show_transaction_timeout demo_env 0 1 Multisig_Wallet None False
     (demo_world tx_malformed (Some 900) 1000)))) = [SerializationError]"
proof -
  have h: "\<not> deserializable (txs (demo_world tx_malformed (Some 900) 1000) 0)"
    by (simp add: demo_world_def tx_malformed_def)
  from malformed_transaction_creates_no_session
         [OF h, of demo_env 1 Multisig_Wallet None False] h
  show ?thesis by (simp add: demo_world_def)
qed

subsection \<open>The sign button\<close>

text \<open>
  C7, as the code has it. \<open>can_sign\<close> holds exactly when the transaction is incomplete
  and the wallet can sign it or external key pairs are supplied. \<open>update\<close> sets the sign
  button to that value whatever the state of the dialog: neither \<open>timed_out\<close> nor
  \<open>visible\<close> enters the computation.
\<close>

theorem can_sign_ignores_dialog_state:
  "can_sign e (txs w (tx s))
     = (\<not> is_complete (txs w (tx s)) \<and>
        (wallet_can_sign e (txs w (tx s)) \<or> tx_external_keypairs e)) \<and>
   sign_button_enabled (update e s w) = can_sign e (txs w (tx s)) \<and>
   sign_button_enabled (update e (s\<lparr>timed_out := x, visible := y\<rparr>) w)
     = sign_button_enabled (update e s w)"
  by (simp add: can_sign_def update_def)

text \<open>A dialog of an unsigned transaction whose countdown stands at 1: the tick expires
  and closes it, and the update at the end of that tick enables the sign button.\<close>

theorem can_sign_expired_counterexample:
  "timed_out (fst (run demo_env [Tick] (demo_open Multisig_Wallet tx_unsigned (Some 401) 1000))) \<and>
   \<not> visible (fst (run demo_env [Tick] (demo_open Multisig_Wallet tx_unsigned (Some 401) 1000))) \<and>
   sid (fst (demo_open Multisig_Wallet tx_unsigned (Some 401) 1000))
     \<notin> set (dialogs (snd (run demo_env [Tick]
          (demo_open Multisig_Wallet tx_unsigned (Some 401) 1000)))) \<and>
   sign_button_enabled
     (fst (run demo_env [Tick] (demo_open Multisig_Wallet tx_unsigned (Some 401) 1000)))"
  by (simp add: demo_defs init_defs op_defs)

subsection \<open>Completion of a sign operation\<close>

text \<open>
  C8, as the code has it. When \<open>sign_done\<close> runs on a transaction that is now complete,
  the save button is enabled and the sign button disabled; besides, \<open>prompt_if_unsaved\<close>
  is set, \<open>saved\<close> is cleared, and \<open>update\<close> refreshes the broadcast button and the
  countdown label. Every other attribute of the dialog keeps its value, and the world is
  unchanged: no call is made on the server and the lock records, the one of the wallet
  included, are as before.
\<close>

theorem sign_done_complete_frame:
  assumes "is_complete (txs w (tx s))"
  shows "sign_done e b s w =
           s\<lparr>prompt_if_unsaved := True, saved := False, save_button_enabled := True,
             broadcast_button_enabled := tx_can_broadcast e (txs w (tx s)),
             sign_button_enabled := False,
             time_out_label := Some (time_left_int s div 60, time_left_int s mod 60)\<rparr> \<and>
         \<not> can_sign e (txs w (tx s)) \<and>
         step e (Sign_done b) (s, w) = (sign_done e b s w, w)"
  using assms by (simp add: sign_done_def update_def can_sign_def)

theorem sign_done_complete_frame_witness:
  "is_complete (txs (snd (run demo_env [Export True, Sign, Wallet_signs tx_signed]
      (demo_open Multisig_Wallet tx_unsigned (Some 900) 1000))) 3) \<and>
   save_button_enabled (fst (run demo_env [Export True, Sign, Wallet_signs tx_signed, Sign_done True]
      (demo_open Multisig_Wallet tx_unsigned (Some 900) 1000))) \<and>
   \<not> sign_button_enabled (fst (run demo_env [Export True, Sign, Wallet_signs tx_signed, Sign_done True]
      (demo_open Multisig_Wallet tx_unsigned (Some 900) 1000))) \<and>
   locks (snd (run demo_env [Export True, Sign, Wallet_signs tx_signed, Sign_done True]
      (demo_open Multisig_Wallet tx_unsigned (Some 900) 1000))) ''wallet''
     = Some \<lparr>timestamp = 900\<rparr> \<and>
   calls (snd (run demo_env [Export True, Sign, Wallet_signs tx_signed, Sign_done True]
      (demo_open Multisig_Wallet tx_unsigned (Some 900) 1000)))
     = [Lock_read, Get_current_time]"
proof -
  obtain s w where c: "run demo_env [Export True, Sign, Wallet_signs tx_signed]
      (demo_open Multisig_Wallet tx_unsigned (Some 900) 1000) = (s, w)"
    by (cases "run demo_env [Export True, Sign, Wallet_signs tx_signed]
      (demo_open Multisig_Wallet tx_unsigned (Some 900) 1000)")
  from c have t: "tx s = 3" and l: "locks w ''wallet'' = Some \<lparr>timestamp = 900\<rparr>"
    and k: "calls w = [Lock_read, Get_current_time]" and i: "is_complete (txs w 3)"
    by (auto simp add: demo_defs init_defs op_defs)
  from i t have h: "is_complete (txs w (tx s))" by simp
  have r: "run demo_env [Export True, Sign, Wallet_signs tx_signed, Sign_done True]
      (demo_open Multisig_Wallet tx_unsigned (Some 900) 1000)
    = step demo_env (Sign_done True) (s, w)"
    using c by simp
  from sign_done_complete_frame [OF h, of demo_env True] r c i l k
  show ?thesis by simp
qed

text \<open>The same run: the dialog had been exported, so \<open>saved\<close> was set and is cleared by
  \<open>sign_done\<close>, and \<open>prompt_if_unsaved\<close>, not set before, is set.\<close>

theorem sign_done_frame_counterexample:
  "is_complete (txs (snd (run demo_env [Export True, Sign, Wallet_signs tx_signed]
      (demo_open Multisig_Wallet tx_unsigned (Some 900) 1000))) 3) \<and>
   tx (fst (run demo_env [Export True, Sign, Wallet_signs tx_signed]
      (demo_open Multisig_Wallet tx_unsigned (Some 900) 1000))) = 3 \<and>
   saved (fst (run demo_env [Export True, Sign, Wallet_signs tx_signed]
      (demo_open Multisig_Wallet tx_unsigned (Some 900) 1000))) \<and>
   \<not> saved (fst (run demo_env [Export True, Sign, Wallet_signs tx_signed, Sign_done True]
      (demo_open Multisig_Wallet tx_unsigned (Some 900) 1000))) \<and>
   \<not> prompt_if_unsaved (fst (run demo_env [Export True, Sign, Wallet_signs tx_signed]
      (demo_open Multisig_Wallet tx_unsigned (Some 900) 1000))) \<and>
   prompt_if_unsaved (fst (run demo_env [Export True, Sign, Wallet_signs tx_signed, Sign_done True]
      (demo_open Multisig_Wallet tx_unsigned (Some 900) 1000)))"
  by (simp add: demo_defs init_defs op_defs)

subsection \<open>Closing\<close>

lemma closeEvent_not_registered: "sid s \<notin> set (dialogs w) \<Longrightarrow> closeEvent s w = w"
  by (simp add: closeEvent_def)

lemma closeEvent_unregisters:
  "distinct (dialogs w) \<Longrightarrow> sid s \<notin> set (dialogs (closeEvent s w))"
  by (simp add: closeEvent_def release_lock_def server_del_lock_def)

lemma closeEvent_calls:
  "calls (closeEvent s w) =
     (if sid s \<in> set (dialogs w) \<and> wallet s = Multisig_Wallet
      then calls w @ [Lock_del] else calls w)"
  by (simp add: closeEvent_def release_lock_def server_del_lock_def)

lemma hide_hidden: "\<not> visible s \<Longrightarrow> s\<lparr>visible := False\<rparr> = s"
  by (cases s) simp

lemma closes_after_closed:
  "sid s \<notin> set (dialogs w) \<Longrightarrow> \<not> visible s \<Longrightarrow> run e (replicate n Close) (s, w) = (s, w)"
  by (induction n) (simp_all add: close_def closeEvent_not_registered hide_hidden)

lemma closes_once:
  assumes "distinct (dialogs w)"
  shows "run e (replicate (Suc n) Close) (s, w) = close s w"
proof -
  have "sid (s\<lparr>visible := False\<rparr>) \<notin> set (dialogs (closeEvent s w))"
    using closeEvent_unregisters [OF assms, of s] by simp
  then have "run e (replicate n Close) (s\<lparr>visible := False\<rparr>, closeEvent s w)
               = (s\<lparr>visible := False\<rparr>, closeEvent s w)"
    by (intro closes_after_closed) simp_all
  then show ?thesis by (simp add: close_def)
qed

text \<open>One step adds at most one \<open>del server.lock\<close>, and only while the dialog is in
  \<open>dialogs\<close>, which it then leaves.\<close>

lemma step_Lock_del:
  assumes "distinct (dialogs w)" and "step e ev (s, w) = (s', w')"
  shows "distinct (dialogs w') \<and> sid s' = sid s \<and>
         (sid s \<in> set (dialogs w) \<longrightarrow>
            count_list (calls w') Lock_del \<le> Suc (count_list (calls w) Lock_del) \<and>
            (sid s \<in> set (dialogs w') \<longrightarrow>
               count_list (calls w') Lock_del = count_list (calls w) Lock_del)) \<and>
         (sid s \<notin> set (dialogs w) \<longrightarrow>
            count_list (calls w') Lock_del = count_list (calls w) Lock_del \<and>
            sid s \<notin> set (dialogs w'))"
  using assms
  by (cases ev) (auto simp add: op_defs update_def Let_def split: if_splits)

lemma run_Lock_del:
  assumes "distinct (dialogs w)"
  shows "(sid s \<in> set (dialogs w) \<longrightarrow>
            count_list (calls (snd (run e evs (s, w)))) Lock_del
              \<le> Suc (count_list (calls w) Lock_del)) \<and>
         (sid s \<notin> set (dialogs w) \<longrightarrow>
            count_list (calls (snd (run e evs (s, w)))) Lock_del
              = count_list (calls w) Lock_del)"
  using assms
proof (induction evs arbitrary: s w)
  case Nil
  then show ?case by simp
next
  case (Cons ev evs)
  obtain s' w' where st: "step e ev (s, w) = (s', w')"
    by (cases "step e ev (s, w)")
  note one = step_Lock_del [OF Cons.prems st]
  from one have d: "distinct (dialogs w')" by simp
  note ih = Cons.IH [OF d, of s']
  show ?case
  proof (cases "sid s \<in> set (dialogs w)")
    case False
    with one ih st show ?thesis by simp
  next
    case True
    show ?thesis
    proof (cases "sid s \<in> set (dialogs w')")
      case True
      with \<open>sid s \<in> set (dialogs w)\<close> one ih st show ?thesis by simp
    next
      case False
      with \<open>sid s \<in> set (dialogs w)\<close> one ih st show ?thesis by simp
    qed
  qed
qed

text \<open>
  C3. For a dialog of a multisig wallet and a list \<open>dialogs\<close> without repetitions
  (each dialog is appended once, when it is shown): any number of close events in a row
  has the effect of the first one alone; that first close calls \<open>del server.lock\<close> once
  if the dialog is in \<open>dialogs\<close> and not at all otherwise; a close that follows a close
  changes nothing and raises nothing; and in any run of events whatever, ticks and
  broadcasts included, at most one \<open>del server.lock\<close> is added to the calls.
\<close>

theorem close_releases_at_most_once:
  assumes "wallet s = Multisig_Wallet" and "distinct (dialogs w)"
  shows "run e (replicate (Suc n) Close) (s, w) = close s w \<and>
         calls (snd (close s w))
           = (if sid s \<in> set (dialogs w) then calls w @ [Lock_del] else calls w) \<and>
         close (fst (close s w)) (snd (close s w)) = close s w \<and>
         count_list (calls (snd (run e evs (s, w)))) Lock_del
           \<le> Suc (count_list (calls w) Lock_del)"
proof -
  have a: "run e (replicate (Suc n) Close) (s, w) = close s w"
    by (rule closes_once [OF assms(2)])
  have b: "calls (snd (close s w))
             = (if sid s \<in> set (dialogs w) then calls w @ [Lock_del] else calls w)"
    using assms(1) by (simp add: close_def closeEvent_calls)
  have "sid (fst (close s w)) \<notin> set (dialogs (snd (close s w)))"
    using closeEvent_unregisters [OF assms(2), of s] by (simp add: close_def)
  then have c: "close (fst (close s w)) (snd (close s w)) = close s w"
    by (simp add: close_def closeEvent_not_registered)
  have d: "count_list (calls (snd (run e evs (s, w)))) Lock_del
             \<le> Suc (count_list (calls w) Lock_del)"
    using run_Lock_del [OF assms(2), of s e evs] by (cases "sid s \<in> set (dialogs w)") simp_all
  from a b c d show ?thesis by simp
qed

theorem close_releases_at_most_once_witness:
  "wallet (fst (demo_open Multisig_Wallet tx_unsigned (Some 900) 1000)) = Multisig_Wallet \<and>
   dialogs (snd (demo_open Multisig_Wallet tx_unsigned (Some 900) 1000)) = [2] \<and>
   calls (snd (run demo_env [Close, Close, Close]
       (demo_open Multisig_Wallet tx_unsigned (Some 900) 1000)))
     = [Lock_read, Get_current_time, Lock_del] \<and>
   locks (snd (run demo_env [Close, Close, Close]
       (demo_open Multisig_Wallet tx_unsigned (Some 900) 1000))) ''wallet'' = None"
proof -
  obtain s w where c: "demo_open Multisig_Wallet tx_unsigned (Some 900) 1000 = (s, w)"
    by (cases "demo_open Multisig_Wallet tx_unsigned (Some 900) 1000")
  from c have m: "wallet s = Multisig_Wallet" and dl: "dialogs w = [2]" and i: "sid s = 2"
    and k: "calls w = [Lock_read, Get_current_time]" and h: "wallet_hash w = ''wallet''"
    by (auto simp add: demo_defs init_defs)
  from dl have d: "distinct (dialogs w)" by simp
  have r: "[Close, Close, Close] = replicate (Suc 2) Close"
    by (simp add: numeral_2_eq_2)
  have l: "locks (snd (close s w)) ''wallet'' = None"
    using m dl i h by (simp add: op_defs)
  from close_releases_at_most_once [OF m d, of demo_env 2 "[]"] c m dl i k l
  show ?thesis unfolding r by simp
qed

subsection \<open>A wallet that is not multisig\<close>

lemma step_other_wallet:
  assumes "wallet s = Other_Wallet" and "step e ev (s, w) = (s', w')"
  shows "wallet s' = Other_Wallet \<and> calls w' = calls w \<and> locks w' = locks w"
  using assms
  by (cases ev) (auto simp add: op_defs update_def Let_def split: if_splits)

lemma run_other_wallet:
  assumes "wallet s = Other_Wallet"
  shows "calls (snd (run e evs (s, w))) = calls w \<and> locks (snd (run e evs (s, w))) = locks w"
  using assms
proof (induction evs arbitrary: s w)
  case Nil
  then show ?case by simp
next
  case (Cons ev evs)
  obtain s' w' where st: "step e ev (s, w) = (s', w')"
    by (cases "step e ev (s, w)")
  from step_other_wallet [OF Cons.prems st] Cons.IH [of s' w'] st
  show ?case by simp
qed

text \<open>
  C4, as the code has it. The constructor reads \<open>server.lock\<close> whatever the class of
  the wallet (and asks the server for the time when the lock has a timestamp); for a
  wallet that is not multisig these are the only calls ever made. The constructor leaves
  the lock records as they are, and after it no event (tick, sign, broadcast, save,
  export, close) makes a call on the server or changes a lock record: such a dialog never
  deletes a lock, and the dialog never creates one.
\<close>

theorem non_multisig_only_reads_lock:
  assumes "TxDialogTimeout_init e a g Other_Wallet d p w = Inr (s, w')"
  shows "locks w' = locks w \<and>
         (calls w' = calls w @ [Lock_read] \<or>
          calls w' = calls w @ [Lock_read, Get_current_time]) \<and>
         calls (snd (run e evs (s\<lparr>visible := True\<rparr>, w'\<lparr>dialogs := dialogs w' @ [sid s]\<rparr>)))
           = calls w' \<and>
         locks (snd (run e evs (s\<lparr>visible := True\<rparr>, w'\<lparr>dialogs := dialogs w' @ [sid s]\<rparr>)))
           = locks w"
proof -
  from assms have k: "wallet s = Other_Wallet" and l: "locks w' = locks w"
    by (rule init_Inr_fields)+
  from assms have c: "calls w' = calls w @ [Lock_read] \<or>
          calls w' = calls w @ [Lock_read, Get_current_time]"
    by (auto simp add: init_defs split: if_splits)
  from k have "wallet (s\<lparr>visible := True\<rparr>) = Other_Wallet" by simp
  from run_other_wallet [OF this, of e evs "w'\<lparr>dialogs := dialogs w' @ [sid s]\<rparr>"] l c
  show ?thesis by simp
qed

theorem non_multisig_only_reads_lock_witness:
  "calls (snd (demo_open Other_Wallet tx_unsigned (Some 900) 1000))
     = [Lock_read, Get_current_time] \<and>
   calls (snd (run demo_env [Sign, Tick, Broadcast False, Broadcast True, Close]
       (demo_open Other_Wallet tx_unsigned (Some 900) 1000)))
     = [Lock_read, Get_current_time] \<and>
   locks (snd (run demo_env [Sign, Tick, Broadcast False, Broadcast True, Close]
       (demo_open Other_Wallet tx_unsigned (Some 900) 1000))) ''wallet''
     = Some \<lparr>timestamp = 900\<rparr>"
proof -
  obtain s w' where i: "TxDialogTimeout_init demo_env 0 1 Other_Wallet None False
      (demo_world tx_unsigned (Some 900) 1000) = Inr (s, w')"
    by (simp add: demo_defs init_defs)
  then have o: "demo_open Other_Wallet tx_unsigned (Some 900) 1000
      = (s\<lparr>visible := True\<rparr>, w'\<lparr>dialogs := dialogs w' @ [sid s]\<rparr>)"
    by (simp add: demo_open_def show_transaction_timeout_def)
  from i have c: "calls w' = [Lock_read, Get_current_time]"
    by (auto simp add: demo_defs init_defs)
  from non_multisig_only_reads_lock
         [OF i, of "[Sign, Tick, Broadcast False, Broadcast True, Close]"] o c
  show ?thesis by (simp add: demo_world_def)
qed

text \<open>Scenario A: a wallet that is not multisig and no lock on the server. The
  constructor has read the lock.\<close>

theorem non_multisig_reads_lock_counterexample:
  "wallet (fst (demo_open Other_Wallet tx_unsigned None 1000)) = Other_Wallet \<and>
   calls (demo_world tx_unsigned None 1000) = [] \<and>
   calls (snd (demo_open Other_Wallet tx_unsigned None 1000)) = [Lock_read]"
  by (simp add: demo_defs init_defs)

subsection \<open>The timer\<close>

text \<open>
  C5, as the code has it. A tick on a visible dialog whose timer runs and whose countdown
  stands at 1 brings the countdown to 0, sets \<open>timed_out\<close> and closes the dialog in that
  same step: the dialog is hidden and the world is the one \<open>closeEvent\<close> leaves. The
  timer is never stopped, so ticks go on after the dialog is closed: such a tick still
  decrements the countdown and refreshes the buttons and the label, and does nothing
  else; it does not set \<open>timed_out\<close>, does not close again and leaves the world as it is.
\<close>

theorem tick_expires_and_ticks_after_close:
  assumes "timer_active s"
  shows "(visible s \<and> time_left_int s = 1 \<longrightarrow>
            step e Tick (s, w)
              = (update e (s\<lparr>time_left_int := 0, timed_out := True, visible := False\<rparr>)
                   (closeEvent s w),
                 closeEvent s w)) \<and>
         (\<not> visible s \<longrightarrow>
            step e Tick (s, w)
              = (update e (s\<lparr>time_left_int := time_left_int s - 1\<rparr>) w, w))"
  using assms
  by (simp add: timer_timeout_def close_def closeEvent_def release_lock_def Let_def)

theorem tick_expires_and_ticks_after_close_witness:
  "timed_out (fst (run demo_env [Tick] (demo_open Multisig_Wallet tx_unsigned (Some 401) 1000))) \<and>
   \<not> visible (fst (run demo_env [Tick] (demo_open Multisig_Wallet tx_unsigned (Some 401) 1000))) \<and>
   dialogs (snd (run demo_env [Tick] (demo_open Multisig_Wallet tx_unsigned (Some 401) 1000)))
     = [] \<and>
   calls (snd (run demo_env [Tick] (demo_open Multisig_Wallet tx_unsigned (Some 401) 1000)))
     = [Lock_read, Get_current_time, Lock_del] \<and>
   time_left_int (fst (run demo_env [Tick, Tick]
       (demo_open Multisig_Wallet tx_unsigned (Some 401) 1000))) = - 1 \<and>
   snd (run demo_env [Tick, Tick] (demo_open Multisig_Wallet tx_unsigned (Some 401) 1000))
     = snd (run demo_env [Tick] (demo_open Multisig_Wallet tx_unsigned (Some 401) 1000))"
proof -
  obtain s w where c: "demo_open Multisig_Wallet tx_unsigned (Some 401) 1000 = (s, w)"
    by (cases "demo_open Multisig_Wallet tx_unsigned (Some 401) 1000")
  from c have a: "timer_active s" and v: "visible s" and t: "time_left_int s = 1"
    and m: "wallet s = Multisig_Wallet" and i: "sid s = 2" and dl: "dialogs w = [2]"
    and k: "calls w = [Lock_read, Get_current_time]"
    by (auto simp add: demo_defs init_defs)
  let ?s1 = "update demo_env (s\<lparr>time_left_int := 0, timed_out := True, visible := False\<rparr>)
                   (closeEvent s w)"
  let ?w1 = "closeEvent s w"
  from tick_expires_and_ticks_after_close [OF a, of demo_env w] v t
  have c1: "step demo_env Tick (s, w) = (?s1, ?w1)"
    by simp
  from a have a1: "timer_active ?s1" and v1: "\<not> visible ?s1"
    and t1: "time_left_int ?s1 = 0" and o1: "timed_out ?s1"
    by (simp_all add: update_def)
  from m i dl k have d1: "dialogs ?w1 = []"
    and k1: "calls ?w1 = [Lock_read, Get_current_time, Lock_del]"
    by (simp_all add: closeEvent_def release_lock_def server_del_lock_def)
  from tick_expires_and_ticks_after_close [OF a1, of demo_env ?w1] v1
  have c2: "step demo_env Tick (?s1, ?w1)
          = (update demo_env (?s1\<lparr>time_left_int := time_left_int ?s1 - 1\<rparr>) ?w1, ?w1)"
    by simp
  have r1: "run demo_env [Tick] (s, w) = (?s1, ?w1)"
    using c1 by simp
  have r2: "run demo_env [Tick, Tick] (s, w)
          = (update demo_env (?s1\<lparr>time_left_int := time_left_int ?s1 - 1\<rparr>) ?w1, ?w1)"
    using c1 c2 by simp
  show ?thesis
    unfolding c r1 r2 using t1 o1 v1 d1 k1 by (simp add: update_def)
qed

text \<open>A dialog with 100 seconds left is closed by the user; the next tick changes its
  countdown and its label.\<close>

theorem tick_after_close_counterexample:
  "\<not> visible (fst (run demo_env [Close] (demo_open Multisig_Wallet tx_unsigned (Some 500) 1000))) \<and>
   sid (fst (demo_open Multisig_Wallet tx_unsigned (Some 500) 1000))
     \<notin> set (dialogs (snd (run demo_env [Close]
          (demo_open Multisig_Wallet tx_unsigned (Some 500) 1000)))) \<and>
   time_left_int (fst (run demo_env [Close]
       (demo_open Multisig_Wallet tx_unsigned (Some 500) 1000))) = 100 \<and>
   time_left_int (fst (run demo_env [Close, Tick]
       (demo_open Multisig_Wallet tx_unsigned (Some 500) 1000))) = 99 \<and>
   time_out_label (fst (run demo_env [Close]
       (demo_open Multisig_Wallet tx_unsigned (Some 500) 1000))) = Some (1, 40) \<and>
   time_out_label (fst (run demo_env [Close, Tick]
       (demo_open Multisig_Wallet tx_unsigned (Some 500) 1000))) = Some (1, 39) \<and>
   fst (run demo_env [Close, Tick] (demo_open Multisig_Wallet tx_unsigned (Some 500) 1000))
     \<noteq> fst (run demo_env [Close] (demo_open Multisig_Wallet tx_unsigned (Some 500) 1000))"
proof -
  have a: "time_left_int (fst (run demo_env [Close]
       (demo_open Multisig_Wallet tx_unsigned (Some 500) 1000))) = 100"
    and b: "time_left_int (fst (run demo_env [Close, Tick]
       (demo_open Multisig_Wallet tx_unsigned (Some 500) 1000))) = 99"
    by (simp_all add: demo_defs init_defs op_defs)
  have c: "fst (run demo_env [Close, Tick] (demo_open Multisig_Wallet tx_unsigned (Some 500) 1000))
     \<noteq> fst (run demo_env [Close] (demo_open Multisig_Wallet tx_unsigned (Some 500) 1000))"
  proof
    assume "fst (run demo_env [Close, Tick] (demo_open Multisig_Wallet tx_unsigned (Some 500) 1000))
     = fst (run demo_env [Close] (demo_open Multisig_Wallet tx_unsigned (Some 500) 1000))"
    with a b show False by simp
  qed
  have d: "\<not> visible (fst (run demo_env [Close]
       (demo_open Multisig_Wallet tx_unsigned (Some 500) 1000)))"
    "sid (fst (demo_open Multisig_Wallet tx_unsigned (Some 500) 1000))
     \<notin> set (dialogs (snd (run demo_env [Close]
          (demo_open Multisig_Wallet tx_unsigned (Some 500) 1000))))"
    "time_out_label (fst (run demo_env [Close]
       (demo_open Multisig_Wallet tx_unsigned (Some 500) 1000))) = Some (1, 40)"
    "time_out_label (fst (run demo_env [Close, Tick]
       (demo_open Multisig_Wallet tx_unsigned (Some 500) 1000))) = Some (1, 39)"
    by (simp_all add: demo_defs init_defs op_defs)
  from a b c d show ?thesis by simp
qed

subsection \<open>A countdown seeded at or below zero\<close>

lemma step_nonpositive:
  assumes "time_left_int s \<le> 0" and "\<not> timed_out s" and "step e ev (s, w) = (s', w')"
  shows "\<not> timed_out s' \<and> timer_active s' = timer_active s \<and>
         time_left_int s' = time_left_int s - (if ev = Tick \<and> timer_active s then 1 else 0)"
  using assms
  by (cases ev) (auto simp add: op_defs update_def Let_def split: if_splits)

lemma run_nonpositive:
  assumes "time_left_int s \<le> 0" and "\<not> timed_out s" and "timer_active s"
  shows "\<not> timed_out (fst (run e evs (s, w))) \<and>
         time_left_int (fst (run e evs (s, w))) = time_left_int s - int (count_list evs Tick)"
  using assms
proof (induction evs arbitrary: s w)
  case Nil
  then show ?case by simp
next
  case (Cons ev evs)
  obtain s' w' where st: "step e ev (s, w) = (s', w')"
    by (cases "step e ev (s, w)")
  from step_nonpositive [OF Cons.prems(1,2) st] Cons.prems(3)
  have n: "\<not> timed_out s'" and a: "timer_active s'"
    and t: "time_left_int s' = time_left_int s - (if ev = Tick then 1 else 0)"
    by simp_all
  from t Cons.prems(1) have le: "time_left_int s' \<le> 0" by simp
  from Cons.IH [OF le n a, of w'] st t show ?case by simp
qed

lemma ticks_nonpositive:
  assumes "time_left_int s \<le> 0" and "timer_active s"
  shows "visible (fst (run e (replicate n Tick) (s, w))) = visible s \<and>
         snd (run e (replicate n Tick) (s, w)) = w"
  using assms
proof (induction n arbitrary: s)
  case 0
  then show ?case by simp
next
  case (Suc n)
  let ?s = "update e (s\<lparr>time_left_int := time_left_int s - 1\<rparr>) w"
  from Suc.prems have st: "step e Tick (s, w) = (?s, w)"
    by (simp add: timer_timeout_def Let_def)
  from Suc.prems have "time_left_int ?s \<le> 0" and "timer_active ?s"
    by (simp_all add: update_def)
  from Suc.IH [OF this] st show ?case by (simp add: update_def)
qed

text \<open>
  C10. When the lock found at construction is at least \<open>DURATION_INT\<close> old (and its
  timestamp is not 0), the dialog is shown with a running timer and a countdown that is
  zero or negative. From then on, in every run of events, \<open>timed_out\<close> is never set and
  the countdown is its seed minus the number of ticks: it falls without bound. A run of
  ticks alone leaves the dialog visible and the world untouched, so the timer never
  closes the dialog and never releases the lock.
\<close>

theorem nonpositive_seed_never_expires:
  assumes "deserializable (txs w a)" and "locks w (wallet_hash w) = Some l"
    and "timestamp l \<noteq> 0" and "DURATION_INT \<le> current_time w - timestamp l"
  shows "\<exists>s w'. show_transaction_timeout e a g k d p w = Inr (Some s, w') \<and>
           timer_active s \<and> visible s \<and> time_left_int s \<le> 0 \<and>
           (\<forall>evs. \<not> timed_out (fst (run e evs (s, w'))) \<and>
                  time_left_int (fst (run e evs (s, w')))
                    = time_left_int s - int (count_list evs Tick)) \<and>
           (\<forall>n. visible (fst (run e (replicate n Tick) (s, w'))) \<and>
                snd (run e (replicate n Tick) (s, w')) = w')"
proof -
  from init_seeded [OF assms(1-3), of e g k d p]
  obtain s0 w0 where i: "TxDialogTimeout_init e a g k d p w = Inr (s0, w0)"
    and t0: "time_left_int s0 = computeRemaining (current_time w) (timestamp l) DURATION_INT"
    and a0: "timer_active s0" and n0: "\<not> timed_out s0"
    by blast
  let ?s = "s0\<lparr>visible := True\<rparr>" and ?w = "w0\<lparr>dialogs := dialogs w0 @ [sid s0]\<rparr>"
  from i have sh: "show_transaction_timeout e a g k d p w = Inr (Some ?s, ?w)"
    by (simp add: show_transaction_timeout_def)
  from t0 assms(4) have le: "time_left_int ?s \<le> 0"
    by (simp add: computeRemaining_def)
  from a0 have ac: "timer_active ?s" by simp
  from n0 have nt: "\<not> timed_out ?s" by simp
  have r: "\<forall>evs. \<not> timed_out (fst (run e evs (?s, ?w))) \<and>
                  time_left_int (fst (run e evs (?s, ?w)))
                    = time_left_int ?s - int (count_list evs Tick)"
    using run_nonpositive [OF le nt ac] by blast
  have t: "\<forall>n. visible (fst (run e (replicate n Tick) (?s, ?w))) \<and>
                snd (run e (replicate n Tick) (?s, ?w)) = ?w"
    using ticks_nonpositive [OF le ac] by simp
  from sh ac le r t show ?thesis by simp
qed

theorem nonpositive_seed_never_expires_witness:
  "time_left_int (fst (demo_open Multisig_Wallet tx_unsigned (Some 100) 1000)) = - 300 \<and>
   time_left_int (fst (run demo_env [Tick, Tick, Tick]
       (demo_open Multisig_Wallet tx_unsigned (Some 100) 1000))) = - 303 \<and>
   \<not> timed_out (fst (run demo_env [Tick, Tick, Tick]
       (demo_open Multisig_Wallet tx_unsigned (Some 100) 1000))) \<and>
   visible (fst (run demo_env [Tick, Tick, Tick]
       (demo_open Multisig_Wallet tx_unsigned (Some 100) 1000))) \<and>
   snd (run demo_env [Tick, Tick, Tick] (demo_open Multisig_Wallet tx_unsigned (Some 100) 1000))
     = snd (demo_open Multisig_Wallet tx_unsigned (Some 100) 1000)"
proof -
  have h: "deserializable (txs (demo_world tx_unsigned (Some 100) 1000) 0)"
    "locks (demo_world tx_unsigned (Some 100) 1000)
       (wallet_hash (demo_world tx_unsigned (Some 100) 1000)) = Some \<lparr>timestamp = 100\<rparr>"
    "timestamp \<lparr>timestamp = 100\<rparr> \<noteq> 0"
    "DURATION_INT \<le> current_time (demo_world tx_unsigned (Some 100) 1000)
                        - timestamp \<lparr>timestamp = 100\<rparr>"
    by (simp_all add: demo_world_def tx_unsigned_def DURATION_INT_def)
  from nonpositive_seed_never_expires [OF h, of demo_env 1 Multisig_Wallet None False]
  obtain s w' where sh: "show_transaction_timeout demo_env 0 1 Multisig_Wallet None False
        (demo_world tx_unsigned (Some 100) 1000) = Inr (Some s, w')"
    and r: "\<forall>evs. \<not> timed_out (fst (run demo_env evs (s, w'))) \<and>
                  time_left_int (fst (run demo_env evs (s, w')))
                    = time_left_int s - int (count_list evs Tick)"
    and t: "\<forall>n. visible (fst (run demo_env (replicate n Tick) (s, w'))) \<and>
                snd (run demo_env (replicate n Tick) (s, w')) = w'"
    by blast
  from sh have o: "demo_open Multisig_Wallet tx_unsigned (Some 100) 1000 = (s, w')"
    by (simp add: demo_open_def)
  from sh have t0: "time_left_int s = - 300"
    by (auto simp add: demo_defs init_defs)
  have rep: "[Tick, Tick, Tick] = replicate 3 Tick"
    by (simp add: numeral_3_eq_3)
  from r [rule_format, of "[Tick, Tick, Tick]"] t [rule_format, of 3] o t0
  show ?thesis unfolding rep [symmetric] by simp
qed

subsection \<open>The snapshot taken at construction\<close>

lemma step_refs:
  assumes "step e ev (s, w) = (s', w')"
  shows "tx s' = tx s \<and> signed s' = signed s"
  using assms
  by (cases ev) (auto simp add: op_defs update_def Let_def split: if_splits)

lemma same_but_refl: "same_but a g w w"
  by (simp add: same_but_def)

lemma same_but_read: "same_but a g w1 w2 \<Longrightarrow> b \<noteq> a \<Longrightarrow> txs w1 b = txs w2 b"
  by (simp add: same_but_def)

text \<open>An event of the dialog reads and writes the store at the dialog's own transaction
  only, so it acts alike on two worlds that differ elsewhere.\<close>

lemma step_same_but:
  assumes "tx s \<noteq> a" and "same_but a g w1 w2" and "\<not> is_mutate ev"
  shows "fst (step e ev (s, w1)) = fst (step e ev (s, w2)) \<and>
         same_but a g (snd (step e ev (s, w1))) (snd (step e ev (s, w2)))"
proof -
  from assms(1,2) have r: "txs w1 (tx s) = txs w2 (tx s)"
    by (simp add: same_but_read)
  from assms(2) have f: "dialogs w1 = dialogs w2" "locks w1 = locks w2"
    "wallet_hash w1 = wallet_hash w2" "calls w1 = calls w2"
    by (simp_all add: same_but_def)
  show ?thesis
  proof (cases ev)
    case Tick
    with r f assms(2) show ?thesis
      by (simp add: op_defs update_def Let_def same_but_def)
  next
    case Close
    with r f assms(2) show ?thesis
      by (simp add: op_defs same_but_def)
  next
    case Sign
    with assms(2) show ?thesis by (simp add: sign_def)
  next
    case (Wallet_signs t)
    with assms(1,2) show ?thesis
      by (simp add: wallet_signs_def same_but_def)
  next
    case (Sign_done b)
    with r assms(2) show ?thesis
      by (simp add: sign_done_def update_def)
  next
    case (Broadcast ok)
    with r f assms(2) show ?thesis
      by (simp add: do_broadcast_def server_delete_def update_def Let_def same_but_def)
  next
    case (Save b)
    with assms(2) show ?thesis by simp
  next
    case (Export b)
    with assms(2) show ?thesis by simp
  next
    case (Mutate b t)
    with assms(3) show ?thesis by simp
  next
    case (Mutate_signed b v)
    with assms(3) show ?thesis by simp
  qed
qed

lemma run_same_but:
  assumes "tx s \<noteq> a" and "same_but a g w1 w2" and "mutates_only a g evs"
  shows "fst (run e evs (s, w1)) = fst (run e (without_mutations evs) (s, w2)) \<and>
         same_but a g (snd (run e evs (s, w1))) (snd (run e (without_mutations evs) (s, w2)))"
  using assms
proof (induction evs arbitrary: s w1 w2)
  case Nil
  then show ?case by simp
next
  case (Cons ev evs)
  show ?case
  proof (cases "is_mutate ev")
    case True
    then obtain w1' where st: "step e ev (s, w1) = (s, w1')" and sb: "same_but a g w1' w2"
      and mo: "mutates_only a g evs"
      using Cons.prems(2,3) by (cases ev) (auto simp add: same_but_def)
    from Cons.IH [OF Cons.prems(1) sb mo] st True show ?thesis by simp
  next
    case False
    obtain s' w1' where st1: "step e ev (s, w1) = (s', w1')"
      by (cases "step e ev (s, w1)")
    obtain s'' w2' where st2: "step e ev (s, w2) = (s'', w2')"
      by (cases "step e ev (s, w2)")
    from step_same_but [OF Cons.prems(1,2) False, of e] st1 st2
    have eq: "s'' = s'" and sb: "same_but a g w1' w2'" by simp_all
    from step_refs [OF st1] Cons.prems(1) have ne: "tx s' \<noteq> a" by simp
    from False Cons.prems(3) have mo: "mutates_only a g evs" by (cases ev) simp_all
    from Cons.IH [OF ne sb mo] st1 st2 eq False show ?thesis by simp
  qed
qed

lemma run_refs: "tx (fst (run e evs (s, w))) = tx s \<and> signed (fst (run e evs (s, w))) = signed s"
proof (induction evs arbitrary: s w)
  case Nil
  then show ?case by simp
next
  case (Cons ev evs)
  obtain s' w' where st: "step e ev (s, w) = (s', w')"
    by (cases "step e ev (s, w)")
  from step_refs [OF st] Cons.IH [of s' w'] st show ?case by simp
qed

lemma show_Some:
  assumes "show_transaction_timeout e a g k d p w = Inr (Some s, w')"
  shows "\<exists>s0 w0. TxDialogTimeout_init e a g k d p w = Inr (s0, w0) \<and>
           s = s0\<lparr>visible := True\<rparr> \<and> w' = w0\<lparr>dialogs := dialogs w0 @ [sid s0]\<rparr>"
  using assms
  by (auto simp add: show_transaction_timeout_def split: sum.splits error.splits prod.splits)

text \<open>
  C9. The constructor copies the transaction and the signature set into fresh objects:
  the dialog's references differ from the addresses of the originals, and the copies hold
  what the originals held at construction. Take any run of events of the shown dialog in
  which the rest of the program writes to the original transaction and the original
  signature set, and the same run with those writes left out: the two runs end with the
  same dialog, attribute by attribute, the same content of the dialog's transaction and
  signature set, the same list of live dialogs, the same lock records and the same calls
  on the server.
\<close>

theorem snapshot_isolated_from_original:
  assumes "show_transaction_timeout e a g k d p w = Inr (Some s, w')"
    and "a < next_addr w" and "g < next_addr w" and "mutates_only a g evs"
  shows "tx s \<noteq> a \<and> signed s \<noteq> g \<and>
         txs w' (tx s) = txs w a \<and> sigs w' (signed s) = sigs w g \<and>
         fst (run e evs (s, w')) = fst (run e (without_mutations evs) (s, w')) \<and>
         txs (snd (run e evs (s, w'))) (tx s)
           = txs (snd (run e (without_mutations evs) (s, w'))) (tx s) \<and>
         sigs (snd (run e evs (s, w'))) (signed s)
           = sigs (snd (run e (without_mutations evs) (s, w'))) (signed s) \<and>
         dialogs (snd (run e evs (s, w')))
           = dialogs (snd (run e (without_mutations evs) (s, w'))) \<and>
         locks (snd (run e evs (s, w')))
           = locks (snd (run e (without_mutations evs) (s, w'))) \<and>
         calls (snd (run e evs (s, w')))
           = calls (snd (run e (without_mutations evs) (s, w')))"
proof -
  from show_Some [OF assms(1)]
  obtain s0 w0 where i: "TxDialogTimeout_init e a g k d p w = Inr (s0, w0)"
    and s: "s = s0\<lparr>visible := True\<rparr>" and w': "w' = w0\<lparr>dialogs := dialogs w0 @ [sid s0]\<rparr>"
    by blast
  note f = init_Inr_fields [OF i]
  from f(2) assms(2) s have na: "tx s \<noteq> a" by simp
  from f(3) assms(3) s have ng: "signed s \<noteq> g" by simp
  from f(5,6) s w' have cp: "txs w' (tx s) = txs w a" "sigs w' (signed s) = sigs w g"
    by simp_all
  from run_same_but [OF na same_but_refl assms(4), of e w']
  have eq: "fst (run e evs (s, w')) = fst (run e (without_mutations evs) (s, w'))"
    and sb: "same_but a g (snd (run e evs (s, w')))
               (snd (run e (without_mutations evs) (s, w')))"
    by simp_all
  from sb na ng have
    "txs (snd (run e evs (s, w'))) (tx s)
       = txs (snd (run e (without_mutations evs) (s, w'))) (tx s)"
    "sigs (snd (run e evs (s, w'))) (signed s)
       = sigs (snd (run e (without_mutations evs) (s, w'))) (signed s)"
    "dialogs (snd (run e evs (s, w')))
       = dialogs (snd (run e (without_mutations evs) (s, w')))"
    "locks (snd (run e evs (s, w')))
       = locks (snd (run e (without_mutations evs) (s, w')))"
    "calls (snd (run e evs (s, w')))
       = calls (snd (run e (without_mutations evs) (s, w')))"
    by (simp_all add: same_but_def)
  with na ng cp eq show ?thesis by simp
qed

text \<open>The original transaction is replaced by a signed one while the dialog is open: the
  original has changed, the dialog's copy has not, and the dialog ends as in the run
  without the writes, with its sign button still enabled.\<close>

theorem snapshot_isolated_from_original_witness:
  "txs (snd (run demo_env [Mutate 0 tx_signed, Tick, Mutate_signed 1 [''k''], Sign_done True]
       (demo_open Multisig_Wallet tx_unsigned (Some 900) 1000))) 0 = tx_signed \<and>
   txs (snd (run demo_env [Mutate 0 tx_signed, Tick, Mutate_signed 1 [''k''], Sign_done True]
       (demo_open Multisig_Wallet tx_unsigned (Some 900) 1000))) 3 = tx_unsigned \<and>
   tx (fst (demo_open Multisig_Wallet tx_unsigned (Some 900) 1000)) = 3 \<and>
   fst (run demo_env [Mutate 0 tx_signed, Tick, Mutate_signed 1 [''k''], Sign_done True]
       (demo_open Multisig_Wallet tx_unsigned (Some 900) 1000))
     = fst (run demo_env [Tick, Sign_done True]
       (demo_open Multisig_Wallet tx_unsigned (Some 900) 1000)) \<and>
   sign_button_enabled
     (fst (run demo_env [Mutate 0 tx_signed, Tick, Mutate_signed 1 [''k''], Sign_done True]
       (demo_open Multisig_Wallet tx_unsigned (Some 900) 1000)))"
proof -
  let ?evs = "[Mutate 0 tx_signed, Tick, Mutate_signed 1 [''k''], Sign_done True]"
  obtain s w' where sh: "show_transaction_timeout demo_env 0 1 Multisig_Wallet None False
      (demo_world tx_unsigned (Some 900) 1000) = Inr (Some s, w')"
    by (simp add: demo_defs init_defs)
  then have o: "demo_open Multisig_Wallet tx_unsigned (Some 900) 1000 = (s, w')"
    by (simp add: demo_open_def)
  have h: "0 < next_addr (demo_world tx_unsigned (Some 900) 1000)"
    "1 < next_addr (demo_world tx_unsigned (Some 900) 1000)"
    "mutates_only 0 1 ?evs"
    by (simp_all add: demo_world_def)
  have wm: "without_mutations ?evs = [Tick, Sign_done True]"
    by simp
  from snapshot_isolated_from_original [OF sh h]
  have eq: "fst (run demo_env ?evs (s, w')) = fst (run demo_env [Tick, Sign_done True] (s, w'))"
    unfolding wm by simp
  have c: "txs (snd (run demo_env ?evs
       (demo_open Multisig_Wallet tx_unsigned (Some 900) 1000))) 0 = tx_signed"
    "txs (snd (run demo_env ?evs
       (demo_open Multisig_Wallet tx_unsigned (Some 900) 1000))) 3 = tx_unsigned"
    "tx (fst (demo_open Multisig_Wallet tx_unsigned (Some 900) 1000)) = 3"
    "sign_button_enabled (fst (run demo_env [Tick, Sign_done True]
       (demo_open Multisig_Wallet tx_unsigned (Some 900) 1000)))"
    by (simp_all add: demo_defs init_defs op_defs)
  from eq c show ?thesis unfolding o by simp
qed

end
